theory Spec2Isabelle
  imports Complex_Main "HOL-Library.AList"
begin

section \<open>Data model\<close>

text \<open>
  Census block identifiers are Python strings.  Travel times, path costs and simulated
  minutes are Python floats in the scripts; they are modelled by exact rationals, so every
  statement below is about exact arithmetic.
\<close>

type_synonym block_id = string

text \<open>
  A \<^verbatim>\<open>networkx.Graph\<close> is its adjacency dictionary \<^verbatim>\<open>G._adj\<close>: a dictionary from
  node to a dictionary from neighbour to the edge attribute \<^verbatim>\<open>weight\<close>.  Dictionaries
  are association lists in insertion order.  The node attribute \<^verbatim>\<open>pos\<close> set by
  \<^verbatim>\<open>add_node\<close> is read by no function of the two scripts and is not stored.
\<close>

type_synonym graph = "(block_id \<times> (block_id \<times> rat) list) list"

datatype py_error = NodeNotFound | NetworkXNoPath | ValueError | KeyError | TypeError

subsection \<open>The graph library calls used by the scripts\<close>

definition has_node :: "graph \<Rightarrow> block_id \<Rightarrow> bool" where
  \<comment> \<open>\<^verbatim>\<open>node in G\<close>\<close>
  "has_node G n = (map_of G n \<noteq> None)"

definition number_of_nodes :: "graph \<Rightarrow> nat" where
  \<comment> \<open>\<^verbatim>\<open>len(G)\<close>; a graph is falsy exactly when this is 0\<close>
  "number_of_nodes G = length G"

definition add_node :: "graph \<Rightarrow> block_id \<Rightarrow> graph" where
  "add_node G n = (if has_node G n then G else G @ [(n, [])])"

definition add_edge :: "graph \<Rightarrow> block_id \<Rightarrow> block_id \<Rightarrow> rat \<Rightarrow> graph" where
  \<comment> \<open>both endpoints become nodes; \<^verbatim>\<open>_adj[u][v]\<close> and \<^verbatim>\<open>_adj[v][u]\<close> are overwritten\<close>
  "add_edge G u v w =
     (let G1 = add_node G u;
          G2 = add_node G1 v;
          G3 = AList.map_entry u (AList.update v w) G2
      in AList.map_entry v (AList.update u w) G3)"

definition degree :: "graph \<Rightarrow> block_id \<Rightarrow> py_error + nat" where
  \<comment> \<open>\<^verbatim>\<open>G.degree(n)\<close> is \<^verbatim>\<open>len(nbrs) + (n in nbrs)\<close>: a self-loop counts twice\<close>
  "degree G n =
     (case map_of G n of
        None \<Rightarrow> Inl KeyError
      | Some nbrs \<Rightarrow> Inr (length nbrs + (if map_of nbrs n \<noteq> None then 1 else 0)))"

subsection \<open>Shortest path length\<close>

text \<open>
  \<^verbatim>\<open>nx.dijkstra_path_length(G, source, target, weight='weight')\<close>.  The fringe is the
  binary heap of triples (distance, insertion counter, node); popping takes the least
  triple in the lexicographic order.
\<close>

type_synonym fringe = "(rat \<times> nat \<times> block_id) list"

fun heap_min :: "(rat \<times> nat \<times> block_id) \<Rightarrow> fringe \<Rightarrow> (rat \<times> nat \<times> block_id)" where
  "heap_min m [] = m"
| "heap_min m (x # xs) =
     (if fst x < fst m \<or> (fst x = fst m \<and> fst (snd x) < fst (snd m))
      then heap_min x xs else heap_min m xs)"

record relax_state =
  seen :: "(block_id \<times> rat) list"
  counter :: nat
  heap :: fringe

fun relax :: "(block_id \<times> rat) list \<Rightarrow> rat \<Rightarrow> (block_id \<times> rat) list \<Rightarrow> relax_state
    \<Rightarrow> py_error + relax_state" where
  "relax dists d [] rs = Inr rs"
| "relax dists d ((u, cost) # nbrs) rs =
     (let vu_dist = d + cost in
      case map_of dists u of
        Some u_dist \<Rightarrow>
          if vu_dist < u_dist then Inl ValueError else relax dists d nbrs rs
      | None \<Rightarrow>
          (case map_of (seen rs) u of
             Some s \<Rightarrow>
               if vu_dist < s
               then relax dists d nbrs
                      \<lparr>seen = AList.update u vu_dist (seen rs), counter = Suc (counter rs),
                       heap = heap rs @ [(vu_dist, counter rs, u)]\<rparr>
               else relax dists d nbrs rs
           | None \<Rightarrow>
               relax dists d nbrs
                 \<lparr>seen = AList.update u vu_dist (seen rs), counter = Suc (counter rs),
                  heap = heap rs @ [(vu_dist, counter rs, u)]\<rparr>))"

lemma heap_min_mem: "heap_min m xs \<in> set (m # xs)"
  by (induction xs arbitrary: m) auto

lemma length_remove1_less: "m \<in> set ys \<Longrightarrow> length (remove1 m ys) < length ys"
  by (induction ys) auto

function dijkstra_loop ::
    "graph \<Rightarrow> block_id \<Rightarrow> (block_id \<times> rat) list \<Rightarrow> relax_state
      \<Rightarrow> py_error + (block_id \<times> rat) list" where
  "dijkstra_loop G target dists rs =
     (case heap rs of
        [] \<Rightarrow> Inr dists
      | x # xs \<Rightarrow>
          (let m = heap_min x xs;
               d = fst m;
               v = snd (snd m);
               rs1 = rs\<lparr>heap := remove1 m (x # xs)\<rparr>
           in if map_of dists v \<noteq> None then dijkstra_loop G target dists rs1
              else if v = target then Inr (dists @ [(v, d)])
              else (case map_of G v of
                      None \<Rightarrow> Inl KeyError
                    | Some nbrs \<Rightarrow>
                        (case relax (dists @ [(v, d)]) d nbrs rs1 of
                           Inl e \<Rightarrow> Inl e
                         | Inr rs2 \<Rightarrow> dijkstra_loop G target (dists @ [(v, d)]) rs2))))"
  by pat_completeness auto
termination
proof (relation "measures [\<lambda>(G, target, dists, rs). card (fst ` set G - fst ` set dists),
                           \<lambda>(G, target, dists, rs). length (heap rs)]", goal_cases)
  case 1
  show ?case by simp
next
  case (2 G target dists rs x xs m d v rs1)
  have "m \<in> set (x # xs)" using 2 heap_min_mem[of x xs] by simp
  then have "length (remove1 m (x # xs)) < length (x # xs)"
    by (rule length_remove1_less)
  then show ?case using 2 by simp
next
  case (3 G target dists rs x xs m d v rs1 nbrs rs2)
  have vG: "v \<in> fst ` set G" using 3 by (auto dest: map_of_SomeD intro: rev_image_eqI)
  have vd: "v \<notin> fst ` set dists" using 3 by (simp add: map_of_eq_None_iff)
  have "fst ` set G - fst ` set (dists @ [(v, d)]) \<subset> fst ` set G - fst ` set dists"
    using vG vd by auto
  then have "card (fst ` set G - fst ` set (dists @ [(v, d)])) < card (fst ` set G - fst ` set dists)"
    by (intro psubset_card_mono) auto
  then show ?case by simp
qed

declare dijkstra_loop.simps [simp del]

definition dijkstra_path_length :: "graph \<Rightarrow> block_id \<Rightarrow> block_id \<Rightarrow> py_error + rat" where
  "dijkstra_path_length G source target =
     (if \<not> has_node G source then Inl NodeNotFound
      else if source = target then Inr 0
      else (case dijkstra_loop G target []
                   \<lparr>seen = [(source, 0)], counter = 1, heap = [(0, 0, source)]\<rparr> of
              Inl e \<Rightarrow> Inl e
            | Inr dists \<Rightarrow>
                (case map_of dists target of
                   None \<Rightarrow> Inl NetworkXNoPath
                 | Some d \<Rightarrow> Inr d)))"

section \<open>Route simulation (analyze_routes.py)\<close>

subsection \<open>Python arithmetic and string formatting\<close>

definition py_floordiv :: "rat \<Rightarrow> rat \<Rightarrow> rat" where
  \<comment> \<open>\<^verbatim>\<open>x // y\<close> on floats, for a divisor other than 0\<close>
  "py_floordiv x y = of_int \<lfloor>x / y\<rfloor>"

definition py_int :: "rat \<Rightarrow> int" where
  \<comment> \<open>\<^verbatim>\<open>int(x)\<close> truncates towards zero\<close>
  "py_int x = (if 0 \<le> x then \<lfloor>x\<rfloor> else \<lceil>x\<rceil>)"

definition digit_char :: "nat \<Rightarrow> char" where
  "digit_char d = char_of (of_char CHR ''0'' + d)"

fun str_nat :: "nat \<Rightarrow> string" where
  "str_nat n = (if n < 10 then [digit_char n] else str_nat (n div 10) @ [digit_char (n mod 10)])"

declare str_nat.simps [simp del]

definition str_int :: "int \<Rightarrow> string" where
  \<comment> \<open>\<^verbatim>\<open>str(i)\<close>, the decimal numeral of an integer\<close>
  "str_int i = (if i < 0 then CHR ''-'' # str_nat (nat (- i)) else str_nat (nat i))"

subsection \<open>Configuration\<close>

definition TIMES_SQUARE :: block_id where "TIMES_SQUARE = ''10113001008''"
definition EMPIRE_STATE :: block_id where "EMPIRE_STATE = ''10076001001''"
definition MET :: block_id where "MET = ''10143001021''"

definition TARGET_NODES :: "block_id list" where
  "TARGET_NODES = [TIMES_SQUARE, EMPIRE_STATE, MET]"

definition DAYS_OF_WEEK :: "string list" where
  "DAYS_OF_WEEK = [''Monday'', ''Saturday'']"

definition HOURS :: "int list" where
  "HOURS = [10 ..< 22]"

definition POSSIBLE_ROUTES :: "block_id list list" where
  "POSSIBLE_ROUTES =
     [[TIMES_SQUARE, EMPIRE_STATE, MET],
      [TIMES_SQUARE, MET, EMPIRE_STATE],
      [EMPIRE_STATE, TIMES_SQUARE, MET],
      [EMPIRE_STATE, MET, TIMES_SQUARE],
      [MET, TIMES_SQUARE, EMPIRE_STATE],
      [MET, EMPIRE_STATE, TIMES_SQUARE]]"

definition START_TIMES :: "int list" where
  "START_TIMES = [10, 12, 14, 16]"

subsection \<open>calculate_route_time\<close>

type_synonym graphs = "string \<rightharpoonup> graph"

definition current_hour :: "int \<Rightarrow> rat \<Rightarrow> int" where
  \<comment> \<open>\<^verbatim>\<open>int(start_time + (total_time // 60)) % 24\<close>\<close>
  "current_hour start_time elapsed = py_int (of_int start_time + py_floordiv elapsed 60) mod 24"

definition graph_key :: "int \<Rightarrow> string \<Rightarrow> string" where
  \<comment> \<open>\<^verbatim>\<open>f"{current_hour}_{day}"\<close>\<close>
  "graph_key hour day = str_int hour @ ''_'' @ day"

definition visit_time :: "block_id \<Rightarrow> rat" where
  \<comment> \<open>the if/elif chain on \<^verbatim>\<open>to_block\<close>; no branch matches any other block\<close>
  "visit_time to_block =
     (if to_block = ''10113001008'' then 30
      else if to_block = ''10076001001'' then 120
      else if to_block = ''10143001021'' then 180
      else 0)"

definition arrival_time :: "int \<Rightarrow> rat \<Rightarrow> int" where
  \<comment> \<open>\<^verbatim>\<open>(start_time + (total_time // 60)) % 24\<close>; the Python value is a float with
      this integral value\<close>
  "arrival_time start_time elapsed = (start_time + \<lfloor>elapsed / 60\<rfloor>) mod 24"

record sim_state =
  total_time :: rat
  time_on_road :: rat
  arrival_times :: "int list"

definition init_state :: "int \<Rightarrow> sim_state" where
  "init_state start_time = \<lparr>total_time = 0, time_on_road = 0, arrival_times = [start_time]\<rparr>"

text \<open>
  One iteration of the loop body.  \<open>Inl e\<close>: the exception \<open>e\<close> leaves the function;
  \<open>Inr None\<close>: \<^verbatim>\<open>return None, None\<close>; \<open>Inr (Some st)\<close>: the iteration ends in \<open>st\<close>.
\<close>

definition leg_step ::
    "graphs \<Rightarrow> int \<Rightarrow> string \<Rightarrow> sim_state \<Rightarrow> block_id \<times> block_id
      \<Rightarrow> py_error + sim_state option" where
  "leg_step graphs start_time day st leg =
     (let from_block = fst leg;
          to_block = snd leg;
          hour = current_hour start_time (total_time st)
      in case graphs (graph_key hour day) of
           None \<Rightarrow> Inr None
         | Some G \<Rightarrow>
             if number_of_nodes G = 0 then Inr None
             else (case dijkstra_path_length G from_block to_block of
                     Inl e \<Rightarrow> Inl e
                   | Inr path_time \<Rightarrow>
                       (let total1 = total_time st + path_time;
                            road = time_on_road st + path_time;
                            total2 = total1 + visit_time to_block
                        in Inr (Some \<lparr>total_time = total2, time_on_road = road,
                              arrival_times =
                                arrival_times st @ [arrival_time start_time total2]\<rparr>))))"

fun route_loop ::
    "graphs \<Rightarrow> int \<Rightarrow> string \<Rightarrow> sim_state \<Rightarrow> (block_id \<times> block_id) list
      \<Rightarrow> py_error + sim_state option" where
  "route_loop graphs start_time day st [] = Inr (Some st)"
| "route_loop graphs start_time day st (leg # legs) =
     (case leg_step graphs start_time day st leg of
        Inl e \<Rightarrow> Inl e
      | Inr None \<Rightarrow> Inr None
      | Inr (Some st') \<Rightarrow> route_loop graphs start_time day st' legs)"

definition legs :: "block_id list \<Rightarrow> (block_id \<times> block_id) list" where
  \<comment> \<open>\<^verbatim>\<open>(route[i], route[i + 1])\<close> for \<^verbatim>\<open>i in range(len(route) - 1)\<close>\<close>
  "legs route = zip route (drop 1 route)"

definition calculate_route_time ::
    "block_id list \<Rightarrow> int \<Rightarrow> string \<Rightarrow> graphs \<Rightarrow> py_error + (rat \<times> int list) option" where
  "calculate_route_time route start_time day graphs =
     (case route_loop graphs start_time day (init_state start_time) (legs route) of
        Inl e \<Rightarrow> Inl e
      | Inr None \<Rightarrow> Inr None
      | Inr (Some st) \<Rightarrow> Inr (Some (time_on_road st, arrival_times st)))"

subsection \<open>evaluate_routes\<close>

record route_row =
  col_route_name :: string
  col_start_time :: int
  col_day :: string
  col_total_time :: rat
  col_arrival_times :: "int list"

definition py_round2 :: "rat \<Rightarrow> rat" where
  \<comment> \<open>\<^verbatim>\<open>round(x, 2)\<close>: to the nearest hundredth, an exact tie to the even one\<close>
  "py_round2 x =
     (let s = x * 100;
          f = \<lfloor>s\<rfloor>;
          r = s - of_int f
      in of_int (if r < 1 / 2 then f
                 else if 1 / 2 < r then f + 1
                 else if even f then f else f + 1) / 100)"

definition route_label :: "nat \<Rightarrow> string" where
  \<comment> \<open>\<^verbatim>\<open>f"Route {idx}"\<close>\<close>
  "route_label idx = ''Route '' @ str_nat idx"

definition combinations :: "(int \<times> string \<times> nat \<times> block_id list) list" where
  \<comment> \<open>the three nested \<^verbatim>\<open>for\<close> loops, in iteration order\<close>
  "combinations =
     concat (map (\<lambda>start_time.
       concat (map (\<lambda>day.
         map (\<lambda>(idx, route). (start_time, day, idx, route)) (List.enumerate 1 POSSIBLE_ROUTES))
       DAYS_OF_WEEK))
     START_TIMES)"

definition sweep_step ::
    "graphs \<Rightarrow> route_row list \<Rightarrow> int \<times> string \<times> nat \<times> block_id list
      \<Rightarrow> py_error + route_row list" where
  "sweep_step graphs route_info c =
     (case c of (start_time, day, idx, route) \<Rightarrow>
        (case calculate_route_time route start_time day graphs of
           Inl e \<Rightarrow> Inl e
         | Inr None \<Rightarrow> Inr route_info
         | Inr (Some (road, arrivals)) \<Rightarrow>
             Inr (route_info @
                  [\<lparr>col_route_name = route_label idx, col_start_time = start_time,
                    col_day = day, col_total_time = py_round2 road,
                    col_arrival_times = arrivals\<rparr>])))"

fun sweep ::
    "graphs \<Rightarrow> route_row list \<Rightarrow> (int \<times> string \<times> nat \<times> block_id list) list
      \<Rightarrow> py_error + route_row list" where
  "sweep graphs route_info [] = Inr route_info"
| "sweep graphs route_info (c # cs) =
     (case sweep_step graphs route_info c of
        Inl e \<Rightarrow> Inl e
      | Inr route_info' \<Rightarrow> sweep graphs route_info' cs)"

definition data_frame7 :: "route_row list \<Rightarrow> py_error + route_row list" where
  \<comment> \<open>\<^verbatim>\<open>pd.DataFrame(route_info, columns=[...])\<close> with seven column names: a row of
      another length is refused\<close>
  "data_frame7 route_info =
     (if list_all (\<lambda>r. length (col_arrival_times r) = 3) route_info
      then Inr route_info else Inl ValueError)"

definition evaluate_routes :: "graphs \<Rightarrow> py_error + route_row list" where
  "evaluate_routes graphs =
     (case sweep graphs [] combinations of
        Inl e \<Rightarrow> Inl e
      | Inr route_info \<Rightarrow> data_frame7 route_info)"

section \<open>Input tables\<close>

record trip_key =
  pickup_hour :: int
  pickup_day :: string
  BCTCB2010_x :: block_id
  BCTCB2010_y :: block_id

record trip = trip_key +
  travel_time :: rat
  pickup_latitude :: rat
  pickup_longitude :: rat
  dropoff_latitude :: rat
  dropoff_longitude :: rat

record route_stat = trip_key +
  avg_travel_time :: rat
  trip_count :: nat

definition mean :: "rat list \<Rightarrow> rat" where
  "mean xs = sum_list xs / of_nat (length xs)"

definition compute_mean_coords :: "trip list \<Rightarrow> (block_id \<times> rat \<times> rat) list" where
  \<comment> \<open>block \<open>\<mapsto>\<close> (mean latitude, mean longitude) over pickups and drop-offs together\<close>
  "compute_mean_coords df =
     (let combined_coords =
            map (\<lambda>t. (BCTCB2010_x t, pickup_latitude t, pickup_longitude t)) df @
            map (\<lambda>t. (BCTCB2010_y t, dropoff_latitude t, dropoff_longitude t)) df
      in map (\<lambda>b. (b, mean (map (fst \<circ> snd) (filter (\<lambda>c. fst c = b) combined_coords)),
                      mean (map (snd \<circ> snd) (filter (\<lambda>c. fst c = b) combined_coords))))
             (remdups (map fst combined_coords)))"

definition route_stats_of :: "trip list \<Rightarrow> route_stat list" where
  \<comment> \<open>\<^verbatim>\<open>groupby([...]).agg(avg_travel_time=mean, trip_count=count)\<close>\<close>
  "route_stats_of df =
     map (\<lambda>k. (let g = filter (\<lambda>t. trip_key.truncate t = k) df
               in trip_key.extend k
                    (route_stat.fields (mean (map travel_time g)) (length g))))
         (remdups (map trip_key.truncate df))"

definition block_positions_of ::
    "trip list \<Rightarrow> (block_id \<times> rat \<times> rat) list \<Rightarrow> (block_id \<times> (rat \<times> rat) option) list" where
  \<comment> \<open>block \<open>\<mapsto>\<close> (lng, lat) of its merged mean coordinates; the left merge leaves a
      block without coordinates at NaN, here \<open>None\<close>\<close>
  "block_positions_of df mean_coords =
     (let pos = (\<lambda>b. map_option (\<lambda>(lat, lng). (lng, lat)) (map_of mean_coords b));
          unique_blocks = remdups (map (\<lambda>t. BCTCB2010_x t) df @ map (\<lambda>t. BCTCB2010_y t) df)
      in map (\<lambda>b. (b, pos b)) unique_blocks)"

section \<open>Graph construction in analyze_routes.py\<close>

text \<open>
  The body of \<^verbatim>\<open>build_graphs\<close> in analyze_routes.py computes \<^verbatim>\<open>route_stats\<close> and
  \<^verbatim>\<open>block_positions\<close>, binds \<^verbatim>\<open>graphs = {}\<close> and ends there: no loop fills the
  dictionary and there is no \<^verbatim>\<open>return\<close>, so the call evaluates to Python's \<^verbatim>\<open>None\<close>
  (\<open>None\<close> below).  \<^verbatim>\<open>main\<close> unpacks the result into two names.
\<close>

record degree_row =
  col_graph :: string
  col_node :: block_id
  col_degree :: nat

definition build_graphs ::
    "trip list \<Rightarrow> (block_id \<times> rat \<times> rat) list \<Rightarrow> (graphs \<times> degree_row list) option" where
  "build_graphs df mean_coords =
     (let route_stats = route_stats_of df;
          block_positions = block_positions_of df mean_coords;
          graphs = (Map.empty :: graphs)
      in None)"

definition main :: "trip list \<Rightarrow> py_error + route_row list" where
  \<comment> \<open>\<^verbatim>\<open>graphs, degrees_df = build_graphs(df, mean_coords)\<close> raises TypeError on \<^verbatim>\<open>None\<close>;
      the value is the table written to the CSV\<close>
  "main df =
     (let mean_coords = compute_mean_coords df
      in case build_graphs df mean_coords of
           None \<Rightarrow> Inl TypeError
         | Some (graphs, degrees_df) \<Rightarrow> evaluate_routes graphs)"

section \<open>Degree reporting (analyze_node_degrees.py)\<close>

definition slot_graph :: "route_stat list \<Rightarrow> (block_id \<times> 'p) list \<Rightarrow> int \<Rightarrow> string \<Rightarrow> graph" where
  \<comment> \<open>the graph \<^verbatim>\<open>G\<close> of one iteration: all blocks of \<^verbatim>\<open>block_positions\<close> as nodes, then
      one \<^verbatim>\<open>add_edge\<close> per row of \<^verbatim>\<open>filtered\<close>\<close>
  "slot_graph route_stats block_positions hour day =
     (let filtered = filter (\<lambda>row. pickup_hour row = hour \<and> pickup_day row = day) route_stats;
          G0 = foldl add_node [] (map fst block_positions)
      in foldl (\<lambda>G row. add_edge G (BCTCB2010_x row) (BCTCB2010_y row) (avg_travel_time row))
           G0 filtered)"

fun target_rows :: "graph \<Rightarrow> string \<Rightarrow> block_id list \<Rightarrow> py_error + degree_row list" where
  "target_rows G key [] = Inr []"
| "target_rows G key (node # nodes) =
     (if has_node G node
      then (case degree G node of
              Inl e \<Rightarrow> Inl e
            | Inr d \<Rightarrow>
                (case target_rows G key nodes of
                   Inl e \<Rightarrow> Inl e
                 | Inr rows \<Rightarrow> Inr (\<lparr>col_graph = key, col_node = node, col_degree = d\<rparr> # rows)))
      else target_rows G key nodes)"

definition slots :: "(int \<times> string) list" where
  \<comment> \<open>\<^verbatim>\<open>for hour in HOURS: for day in DAYS_OF_WEEK\<close>\<close>
  "slots = concat (map (\<lambda>hour. map (\<lambda>day. (hour, day)) DAYS_OF_WEEK) HOURS)"

fun degree_loop ::
    "route_stat list \<Rightarrow> (block_id \<times> 'p) list \<Rightarrow> (int \<times> string) list
      \<Rightarrow> py_error + degree_row list" where
  "degree_loop route_stats block_positions [] = Inr []"
| "degree_loop route_stats block_positions ((hour, day) # rest) =
     (case target_rows (slot_graph route_stats block_positions hour day)
             (graph_key hour day) TARGET_NODES of
        Inl e \<Rightarrow> Inl e
      | Inr rows \<Rightarrow>
          (case degree_loop route_stats block_positions rest of
             Inl e \<Rightarrow> Inl e
           | Inr later \<Rightarrow> Inr (rows @ later)))"

definition compute_node_degrees ::
    "route_stat list \<Rightarrow> (block_id \<times> 'p) list \<Rightarrow> py_error + degree_row list" where
  "compute_node_degrees route_stats block_positions =
     degree_loop route_stats block_positions slots"

section \<open>Notions used in the statements\<close>




text \<open>
  The set of distinct neighbours of a node, the well-formedness of adjacency dictionaries
  (a dictionary holds a key once) and the adjacency list of a node.
\<close>

definition neighbors :: "graph \<Rightarrow> block_id \<Rightarrow> block_id set" where
  "neighbors G n = (case map_of G n of None \<Rightarrow> {} | Some nbrs \<Rightarrow> fst ` set nbrs)"

definition adj_ok :: "graph \<Rightarrow> bool" where
  "adj_ok G = (\<forall>n nbrs. map_of G n = Some nbrs \<longrightarrow> distinct (map fst nbrs))"

definition nbrs_of :: "graph \<Rightarrow> block_id \<Rightarrow> (block_id \<times> rat) list" where
  "nbrs_of G n = (case map_of G n of None \<Rightarrow> [] | Some nbrs \<Rightarrow> nbrs)"

text \<open>
  The blocks joined to \<open>n\<close> by a route-stat row of the slot, in either direction, and the
  blocks that occur in a row of the slot.
\<close>

definition slot_neighbors :: "route_stat list \<Rightarrow> int \<Rightarrow> string \<Rightarrow> block_id \<Rightarrow> block_id set" where
  "slot_neighbors route_stats hour day n =
     set (concat (map (\<lambda>row. (if BCTCB2010_x row = n then [BCTCB2010_y row] else []) @
                              (if BCTCB2010_y row = n then [BCTCB2010_x row] else []))
               (filter (\<lambda>row. pickup_hour row = hour \<and> pickup_day row = day) route_stats)))"

definition slot_blocks :: "route_stat list \<Rightarrow> int \<Rightarrow> string \<Rightarrow> block_id set" where
  "slot_blocks route_stats hour day =
     set (concat (map (\<lambda>row. [BCTCB2010_x row, BCTCB2010_y row])
               (filter (\<lambda>row. pickup_hour row = hour \<and> pickup_day row = day) route_stats)))"

section \<open>Example inputs\<close>

text \<open>
  Slot graphs over the three landmarks: \<open>road_graph\<close> joins Times Square to the Empire State
  Building (15 minutes) and the Empire State Building to the MET (20 minutes);
  \<open>half_graph\<close> has the first of these edges only; \<open>wrap_graph\<close> has the single edge
  MET -- Times Square (12 minutes).
\<close>

definition road_graph :: graph where
  "road_graph =
     add_edge (add_edge (add_node (add_node (add_node [] TIMES_SQUARE) EMPIRE_STATE) MET)
       TIMES_SQUARE EMPIRE_STATE 15) EMPIRE_STATE MET 20"





definition first_slot_only :: graphs where
  "first_slot_only = [''10_Monday'' \<mapsto> road_graph]"

definition empty_slot_graphs :: graphs where
  "empty_slot_graphs = [''10_Monday'' \<mapsto> []]"

text \<open>
  A route-stat table with one row, for trips inside the Times Square block, and a position
  mapping of two blocks.
\<close>

definition self_loop_stats :: "route_stat list" where
  "self_loop_stats =
     [\<lparr>pickup_hour = 10, pickup_day = ''Monday'', BCTCB2010_x = TIMES_SQUARE,
       BCTCB2010_y = TIMES_SQUARE, avg_travel_time = 5, trip_count = 1\<rparr>]"

definition two_block_positions :: "(block_id \<times> rat \<times> rat) list" where
  "two_block_positions =
     [(TIMES_SQUARE, (- 7398 / 100, 4075 / 100)), (EMPIRE_STATE, (- 7399 / 100, 4074 / 100))]"

section \<open>Properties of the route simulation\<close>








lemma route_loop_append:
  "route_loop graphs start_time day st (xs @ ys) =
     (case route_loop graphs start_time day st xs of
        Inl e \<Rightarrow> Inl e
      | Inr None \<Rightarrow> Inr None
      | Inr (Some st') \<Rightarrow> route_loop graphs start_time day st' ys)"
  by (induction xs arbitrary: st) (auto split: sum.splits option.splits)


lemma leg_step_SomeI:
  assumes "graphs (graph_key (current_hour start_time (total_time st)) day) = Some G"
    and "number_of_nodes G \<noteq> 0"
    and "dijkstra_path_length G (fst leg) (snd leg) = Inr path_time"
  shows "leg_step graphs start_time day st leg =
           Inr (Some \<lparr>total_time = total_time st + path_time + visit_time (snd leg),
                      time_on_road = time_on_road st + path_time,
                      arrival_times = arrival_times st @
                        [arrival_time start_time (total_time st + path_time + visit_time (snd leg))]\<rparr>)"
  using assms by (simp add: leg_step_def Let_def)













text \<open>
  C10.  When the key looked up for the first leg maps to a graph with zero nodes, the
  evaluation gives what it gives with that key removed from the mapping, and for a route
  with a first leg this is \<^verbatim>\<open>(None, None)\<close>.
\<close>

theorem empty_graph_treated_as_missing:
  assumes "graphs (graph_key (current_hour start_time 0) day) = Some G"
    and "number_of_nodes G = 0"
  shows "calculate_route_time route start_time day graphs
           = calculate_route_time route start_time day
               (graphs(graph_key (current_hour start_time 0) day := None))
       \<and> (2 \<le> length route \<longrightarrow> calculate_route_time route start_time day graphs = Inr None)"
proof (cases "legs route")
  case Nil
  then have "length route < 2" by (simp add: legs_def) (cases route; simp)
  then show ?thesis using Nil by (simp add: calculate_route_time_def)
next
  case (Cons leg ls)
  have a: "leg_step graphs start_time day (init_state start_time) leg = Inr None"
    using assms by (simp add: leg_step_def init_state_def)
  have b: "leg_step (graphs(graph_key (current_hour start_time 0) day := None)) start_time day
             (init_state start_time) leg = Inr None"
    by (simp add: leg_step_def init_state_def)
  show ?thesis using a b Cons by (simp add: calculate_route_time_def)
qed











lemma ex_empty_slot: "empty_slot_graphs (graph_key (current_hour 10 0) ''Monday'') = Some []"
  by code_simp

theorem empty_graph_treated_as_missing_witness:
  "empty_slot_graphs (graph_key (current_hour 10 0) ''Monday'') = Some []
   \<and> number_of_nodes [] = 0
   \<and> 2 \<le> length [TIMES_SQUARE, EMPIRE_STATE, MET]
   \<and> calculate_route_time [TIMES_SQUARE, EMPIRE_STATE, MET] 10 ''Monday'' empty_slot_graphs = Inr None
   \<and> calculate_route_time [TIMES_SQUARE, EMPIRE_STATE, MET] 10 ''Monday''
        (empty_slot_graphs(graph_key (current_hour 10 0) ''Monday'' := None)) = Inr None"
proof -
  have n: "number_of_nodes [] = 0" by (simp add: number_of_nodes_def)
  note t = empty_graph_treated_as_missing[where graphs = empty_slot_graphs and start_time = 10
         and day = "''Monday''" and G = "[]" and route = "[TIMES_SQUARE, EMPIRE_STATE, MET]",
         OF ex_empty_slot n]
  have a: "calculate_route_time [TIMES_SQUARE, EMPIRE_STATE, MET] 10 ''Monday'' empty_slot_graphs
             = Inr None"
    using t by auto
  have b: "calculate_route_time [TIMES_SQUARE, EMPIRE_STATE, MET] 10 ''Monday''
        (empty_slot_graphs(graph_key (current_hour 10 0) ''Monday'' := None)) = Inr None"
    by (metis t a)
  show ?thesis using ex_empty_slot n a b by simp
qed






lemma digit_char_inj: "i < 10 \<Longrightarrow> j < 10 \<Longrightarrow> digit_char i = digit_char j \<Longrightarrow> i = j"
  unfolding digit_char_def
  by (simp add: char_of_eq_iff take_bit_eq_mod)

lemma route_label_inj:
  "i < 10 \<Longrightarrow> j < 10 \<Longrightarrow> route_label i = route_label j \<Longrightarrow> i = j"
  by (auto simp: route_label_def str_nat.simps dest: digit_char_inj)

lemma combinations_mem:
  "(s, d, i, r) \<in> set combinations \<longleftrightarrow>
     s \<in> set START_TIMES \<and> d \<in> set DAYS_OF_WEEK \<and> (i, r) \<in> set (List.enumerate 1 POSSIBLE_ROUTES)"
  by (auto simp: combinations_def)

lemma enumerate_routes:
  "(i, r) \<in> set (List.enumerate 1 POSSIBLE_ROUTES) \<Longrightarrow> i < 10 \<and> r = POSSIBLE_ROUTES ! (i - 1)"
  by (auto simp: POSSIBLE_ROUTES_def enumerate_eq_zip in_set_zip nth_Cons split: nat.splits)

lemma sweep_rows:
  assumes "sweep graphs acc cs = Inr rows" and "row \<in> set rows"
  shows "row \<in> set acc \<or>
         (\<exists>s d i r road arrivals. (s, d, i, r) \<in> set cs
            \<and> calculate_route_time r s d graphs = Inr (Some (road, arrivals))
            \<and> row = \<lparr>col_route_name = route_label i, col_start_time = s, col_day = d,
                      col_total_time = py_round2 road, col_arrival_times = arrivals\<rparr>)"
  using assms
proof (induction cs arbitrary: acc)
  case Nil
  then show ?case by simp
next
  case (Cons c cs)
  obtain s d i r where c: "c = (s, d, i, r)" by (cases c) auto
  from Cons.prems(1) obtain acc' where st: "sweep_step graphs acc c = Inr acc'"
    and rest: "sweep graphs acc' cs = Inr rows"
    by (auto split: sum.splits)
  from Cons.IH[OF rest Cons.prems(2)] consider (old) "row \<in> set acc'"
    | (new) "\<exists>s d i r road arrivals. (s, d, i, r) \<in> set cs
            \<and> calculate_route_time r s d graphs = Inr (Some (road, arrivals))
            \<and> row = \<lparr>col_route_name = route_label i, col_start_time = s, col_day = d,
                      col_total_time = py_round2 road, col_arrival_times = arrivals\<rparr>"
    by blast
  then show ?case
  proof cases
    case old
    show ?thesis
    proof (cases "calculate_route_time r s d graphs")
      case (Inl e)
      with st show ?thesis by (simp add: c sweep_step_def)
    next
      case (Inr res)
      show ?thesis
      proof (cases res)
        case None
        with st Inr have "acc' = acc" by (simp add: c sweep_step_def)
        with old show ?thesis by simp
      next
        case (Some p)
        obtain road arrivals where p: "p = (road, arrivals)" by (cases p) auto
        from st Inr Some p have
          "acc' = acc @ [\<lparr>col_route_name = route_label i, col_start_time = s, col_day = d,
                      col_total_time = py_round2 road, col_arrival_times = arrivals\<rparr>]"
          by (simp add: c sweep_step_def)
        with old have "row \<in> set acc \<or>
           row = \<lparr>col_route_name = route_label i, col_start_time = s, col_day = d,
                      col_total_time = py_round2 road, col_arrival_times = arrivals\<rparr>"
          by auto
        then show ?thesis
        proof
          assume "row \<in> set acc"
          then show ?thesis by simp
        next
          assume "row = \<lparr>col_route_name = route_label i, col_start_time = s, col_day = d,
                      col_total_time = py_round2 road, col_arrival_times = arrivals\<rparr>"
          moreover have "(s, d, i, r) \<in> set (c # cs)" by (simp add: c)
          moreover have "calculate_route_time r s d graphs = Inr (Some (road, arrivals))"
            using Inr Some p by simp
          ultimately show ?thesis by blast
        qed
      qed
    qed
  next
    case new
    then obtain s' d' i' r' road arrivals where
      m: "(s', d', i', r') \<in> set cs"
      and ok: "calculate_route_time r' s' d' graphs = Inr (Some (road, arrivals))"
      and row: "row = \<lparr>col_route_name = route_label i', col_start_time = s', col_day = d',
                      col_total_time = py_round2 road, col_arrival_times = arrivals\<rparr>"
      by blast
    from m have "(s', d', i', r') \<in> set (c # cs)" by simp
    with ok row show ?thesis by blast
  qed
qed






lemma calculate_route_time_at_leg:
  assumes "route_loop graphs start_time day (init_state start_time) (take k (legs route))
             = Inr (Some st)"
    and "k < length (legs route)"
  shows "calculate_route_time route start_time day graphs =
           (case leg_step graphs start_time day st (legs route ! k) of
              Inl e \<Rightarrow> Inl e
            | Inr None \<Rightarrow> Inr None
            | Inr (Some st') \<Rightarrow>
                (case route_loop graphs start_time day st' (drop (Suc k) (legs route)) of
                   Inl e \<Rightarrow> Inl e
                 | Inr None \<Rightarrow> Inr None
                 | Inr (Some stf) \<Rightarrow> Inr (Some (time_on_road stf, arrival_times stf))))"
proof -
  have d: "drop k (legs route) = legs route ! k # drop (Suc k) (legs route)"
    using assms(2) by (simp add: Cons_nth_drop_Suc)
  have "route_loop graphs start_time day (init_state start_time) (legs route)
        = route_loop graphs start_time day (init_state start_time)
            (take k (legs route) @ drop k (legs route))"
    by simp
  also have "\<dots> = route_loop graphs start_time day st (drop k (legs route))"
    unfolding route_loop_append using assms(1) by simp
  also have "\<dots> = route_loop graphs start_time day st
                      (legs route ! k # drop (Suc k) (legs route))"
    by (subst d) (rule refl)
  finally show ?thesis
    by (simp add: calculate_route_time_def split: sum.splits option.splits)
qed

text \<open>
  C7.  When the legs before leg \<open>k\<close> have succeeded and the mapping has no graph for the
  hour in effect at leg \<open>k\<close>, the evaluation returns \<^verbatim>\<open>(None, None)\<close> for the whole
  attempt, the sweep's iteration for that combination raises nothing and leaves the
  collected rows as they are, and a table returned by the sweep has no row for that
  (route, start hour, weekday).
\<close>

theorem missing_slot_graph_abandons_route:
  assumes "route_loop graphs start_time day (init_state start_time) (take k (legs route))
             = Inr (Some st)"
    and "k < length (legs route)"
    and "graphs (graph_key (current_hour start_time (total_time st)) day) = None"
  shows "calculate_route_time route start_time day graphs = Inr None
       \<and> sweep_step graphs route_info (start_time, day, idx, route) = Inr route_info
       \<and> ((start_time, day, idx, route) \<in> set combinations
            \<longrightarrow> evaluate_routes graphs = Inr rows
            \<longrightarrow> \<not> (\<exists>row \<in> set rows. col_route_name row = route_label idx
                     \<and> col_start_time row = start_time \<and> col_day row = day))"
proof -
  have l: "leg_step graphs start_time day st (legs route ! k) = Inr None"
    using assms(3) by (simp add: leg_step_def)
  have a: "calculate_route_time route start_time day graphs = Inr None"
    unfolding calculate_route_time_at_leg[OF assms(1,2)] l by simp
  have b: "sweep_step graphs route_info (start_time, day, idx, route) = Inr route_info"
    by (simp add: sweep_step_def a)
  have c: "\<not> (\<exists>row \<in> set rows. col_route_name row = route_label idx
                     \<and> col_start_time row = start_time \<and> col_day row = day)"
    if mem: "(start_time, day, idx, route) \<in> set combinations"
      and ev: "evaluate_routes graphs = Inr rows"
  proof
    assume "\<exists>row \<in> set rows. col_route_name row = route_label idx
                     \<and> col_start_time row = start_time \<and> col_day row = day"
    then obtain row where row: "row \<in> set rows" "col_route_name row = route_label idx"
      "col_start_time row = start_time" "col_day row = day" by blast
    from ev have sw: "sweep graphs [] combinations = Inr rows"
      by (auto simp: evaluate_routes_def data_frame7_def split: sum.splits if_splits)
    from sweep_rows[OF sw row(1)] obtain s d i r road arrivals where
      m2: "(s, d, i, r) \<in> set combinations"
      and ok: "calculate_route_time r s d graphs = Inr (Some (road, arrivals))"
      and eq: "row = \<lparr>col_route_name = route_label i, col_start_time = s, col_day = d,
                      col_total_time = py_round2 road, col_arrival_times = arrivals\<rparr>"
      by auto
    from eq row have e: "route_label i = route_label idx" "s = start_time" "d = day" by auto
    from mem have "(idx, route) \<in> set (List.enumerate 1 POSSIBLE_ROUTES)"
      unfolding combinations_mem by blast
    then have i1: "idx < 10 \<and> route = POSSIBLE_ROUTES ! (idx - 1)"
      by (rule enumerate_routes)
    from m2 have "(i, r) \<in> set (List.enumerate 1 POSSIBLE_ROUTES)"
      unfolding combinations_mem by blast
    then have i2: "i < 10 \<and> r = POSSIBLE_ROUTES ! (i - 1)"
      by (rule enumerate_routes)
    from route_label_inj[of i idx] e(1) i1 i2 have "i = idx" by simp
    with i1 i2 have "r = route" by simp
    with ok e a show False by simp
  qed
  show ?thesis using a b c by blast
qed

lemma fs_prefix: "route_loop first_slot_only 10 ''Monday'' (init_state 10)
     (take 1 (legs [TIMES_SQUARE, EMPIRE_STATE, MET]))
   = Inr (Some \<lparr>total_time = 135, time_on_road = 15, arrival_times = [10, 12]\<rparr>)"
  by code_simp

lemma fs_missing: "first_slot_only (graph_key (current_hour 10 135) ''Monday'') = None"
  by code_simp

lemma fs_mem: "(10, ''Monday'', 1, [TIMES_SQUARE, EMPIRE_STATE, MET]) \<in> set combinations"
  by (simp add: combinations_mem START_TIMES_def DAYS_OF_WEEK_def POSSIBLE_ROUTES_def)

lemma fs_sweep: "evaluate_routes first_slot_only =
   Inr [\<lparr>col_route_name = ''Route 3'', col_start_time = 10, col_day = ''Monday'',
         col_total_time = 50, col_arrival_times = [10, 10, 14]\<rparr>]"
  by code_simp

theorem missing_slot_graph_abandons_route_witness:
  "route_loop first_slot_only 10 ''Monday'' (init_state 10)
     (take 1 (legs [TIMES_SQUARE, EMPIRE_STATE, MET]))
     = Inr (Some \<lparr>total_time = 135, time_on_road = 15, arrival_times = [10, 12]\<rparr>)
   \<and> first_slot_only (graph_key (current_hour 10 135) ''Monday'') = None
   \<and> calculate_route_time [TIMES_SQUARE, EMPIRE_STATE, MET] 10 ''Monday'' first_slot_only = Inr None
   \<and> evaluate_routes first_slot_only =
       Inr [\<lparr>col_route_name = ''Route 3'', col_start_time = 10, col_day = ''Monday'',
             col_total_time = 50, col_arrival_times = [10, 10, 14]\<rparr>]
   \<and> ''Route 3'' \<noteq> route_label 1"
proof -
  let ?st = "\<lparr>total_time = 135, time_on_road = 15, arrival_times = [10, 12]\<rparr>"
  let ?rows = "[\<lparr>col_route_name = ''Route 3'', col_start_time = 10, col_day = ''Monday'',
             col_total_time = 50, col_arrival_times = [10, 10, 14]\<rparr>]"
  have k: "1 < length (legs [TIMES_SQUARE, EMPIRE_STATE, MET])" by (simp add: legs_def)
  have m: "first_slot_only (graph_key (current_hour 10 (total_time ?st)) ''Monday'') = None"
    using fs_missing by simp
  note t = missing_slot_graph_abandons_route[where graphs = first_slot_only and start_time = 10
      and day = "''Monday''" and k = 1 and route = "[TIMES_SQUARE, EMPIRE_STATE, MET]"
      and st = ?st and idx = 1 and rows = ?rows and route_info = "[]", OF fs_prefix k m]
  from t have a: "calculate_route_time [TIMES_SQUARE, EMPIRE_STATE, MET] 10 ''Monday''
                    first_slot_only = Inr None" by blast
  from t fs_mem fs_sweep have "\<not> (\<exists>row \<in> set ?rows. col_route_name row = route_label 1
                     \<and> col_start_time row = 10 \<and> col_day row = ''Monday'')" by blast
  then have b: "''Route 3'' \<noteq> route_label 1" by simp
  show ?thesis using fs_prefix fs_missing a fs_sweep b by blast
qed












lemma has_node_iff: "has_node G n \<longleftrightarrow> n \<in> fst ` set G"
  by (simp add: has_node_def map_of_eq_None_iff)

lemma map_of_add_node:
  "map_of (add_node G n) m = (if m = n \<and> \<not> has_node G n then Some [] else map_of G m)"
  by (auto simp: add_node_def has_node_def map_add_def split: option.splits)

lemma has_node_add_node: "has_node (add_node G n) m \<longleftrightarrow> has_node G m \<or> m = n"
  by (auto simp: has_node_def map_of_add_node)

lemma neighbors_add_node: "neighbors (add_node G n) m = neighbors G m"
  by (auto simp: neighbors_def map_of_add_node has_node_def)

lemma adj_ok_add_node: "adj_ok G \<Longrightarrow> adj_ok (add_node G n)"
  by (auto simp: adj_ok_def map_of_add_node split: if_splits)

lemma neighbors_nbrs_of: "neighbors G n = fst ` set (nbrs_of G n)"
  by (simp add: neighbors_def nbrs_of_def split: option.splits)

lemma map_of_map_entry_eq:
  "map_of (AList.map_entry k f xs) n =
     (if n = k then map_option f (map_of xs k) else map_of xs n)"
  by (simp add: AList.map_of_map_entry map_option_case)

lemma has_node_map_entry: "has_node (AList.map_entry k f G) n = has_node G n"
  by (simp add: has_node_iff AList.dom_map_entry)

lemma has_node_add_edge:
  "has_node (add_edge G u v w) m \<longleftrightarrow> has_node G m \<or> m = u \<or> m = v"
  unfolding add_edge_def Let_def has_node_map_entry has_node_add_node by blast

lemma nbrs_of_add_node: "nbrs_of (add_node G n) m = nbrs_of G m"
  by (auto simp: nbrs_of_def map_of_add_node has_node_def)

lemma nbrs_of_map_entry:
  "has_node G k \<Longrightarrow>
   nbrs_of (AList.map_entry k f G) n = (if n = k then f (nbrs_of G k) else nbrs_of G n)"
  by (auto simp: nbrs_of_def map_of_map_entry_eq has_node_def)

lemma nbrs_of_add_edge:
  "nbrs_of (add_edge G u v w) n =
     (if n = v then AList.update u w (if v = u then AList.update v w (nbrs_of G u) else nbrs_of G v)
      else if n = u then AList.update v w (nbrs_of G u)
      else nbrs_of G n)"
proof -
  let ?G2 = "add_node (add_node G u) v"
  let ?G3 = "AList.map_entry u (AList.update v w) ?G2"
  have u2: "has_node ?G2 u" by (simp add: has_node_add_node)
  have v3: "has_node ?G3 v" by (simp add: has_node_map_entry has_node_add_node)
  have n2: "\<And>m. nbrs_of ?G2 m = nbrs_of G m" by (simp add: nbrs_of_add_node)
  have n3: "\<And>m. nbrs_of ?G3 m = (if m = u then AList.update v w (nbrs_of G u) else nbrs_of G m)"
    by (simp add: nbrs_of_map_entry[OF u2] n2)
  have "nbrs_of (AList.map_entry v (AList.update u w) ?G3) n =
          (if n = v then AList.update u w (nbrs_of ?G3 v) else nbrs_of ?G3 n)"
    by (rule nbrs_of_map_entry[OF v3])
  then show ?thesis
    unfolding add_edge_def Let_def n3 by simp
qed

lemma neighbors_add_edge:
  "neighbors (add_edge G u v w) n =
     neighbors G n \<union> (if n = u then {v} else {}) \<union> (if n = v then {u} else {})"
  unfolding neighbors_nbrs_of nbrs_of_add_edge
  by (auto simp: AList.dom_update)

lemma adj_ok_nbrs_of: "adj_ok G \<longleftrightarrow> (\<forall>n. distinct (map fst (nbrs_of G n)))"
  by (auto simp: adj_ok_def nbrs_of_def split: option.splits)

lemma adj_ok_add_edge: "adj_ok G \<Longrightarrow> adj_ok (add_edge G u v w)"
  unfolding adj_ok_nbrs_of nbrs_of_add_edge
  by (simp add: AList.distinct_update)

lemma degree_card:
  assumes "adj_ok G" and "has_node G n"
  shows "degree G n = Inr (card (neighbors G n) + (if n \<in> neighbors G n then 1 else 0))"
proof -
  from assms(2) obtain nbrs where m: "map_of G n = Some nbrs" by (auto simp: has_node_def)
  with assms(1) have d: "distinct (map fst nbrs)" by (auto simp: adj_ok_def)
  have c: "card (fst ` set nbrs) = length nbrs"
    using distinct_card[OF d] by simp
  have s: "map_of nbrs n \<noteq> None \<longleftrightarrow> n \<in> fst ` set nbrs"
    by (simp add: map_of_eq_None_iff)
  show ?thesis
    using m c s by (simp add: degree_def neighbors_def)
qed

lemma foldl_add_node:
  "has_node (foldl add_node G ns) m \<longleftrightarrow> has_node G m \<or> m \<in> set ns"
  by (induction ns arbitrary: G) (auto simp: has_node_add_node)

lemma foldl_add_node_neighbors: "neighbors (foldl add_node G ns) m = neighbors G m"
  by (induction ns arbitrary: G) (simp_all add: neighbors_add_node)

lemma foldl_add_node_ok: "adj_ok G \<Longrightarrow> adj_ok (foldl add_node G ns)"
  by (induction ns arbitrary: G) (simp_all add: adj_ok_add_node)

lemma foldl_add_edge_nodes:
  "has_node (foldl (\<lambda>G row. add_edge G (BCTCB2010_x row) (BCTCB2010_y row) (avg_travel_time row))
               G rows) m
   \<longleftrightarrow> has_node G m \<or> m \<in> set (concat (map (\<lambda>row. [BCTCB2010_x row, BCTCB2010_y row]) rows))"
  by (induction rows arbitrary: G) (auto simp: has_node_add_edge)

lemma foldl_add_edge_neighbors:
  "neighbors (foldl (\<lambda>G row. add_edge G (BCTCB2010_x row) (BCTCB2010_y row) (avg_travel_time row))
               G rows) n
   = neighbors G n \<union>
     set (concat (map (\<lambda>row. (if BCTCB2010_x row = n then [BCTCB2010_y row] else []) @
                              (if BCTCB2010_y row = n then [BCTCB2010_x row] else [])) rows))"
  by (induction rows arbitrary: G) (auto simp: neighbors_add_edge)

lemma foldl_add_edge_ok:
  "adj_ok G \<Longrightarrow>
   adj_ok (foldl (\<lambda>G row. add_edge G (BCTCB2010_x row) (BCTCB2010_y row) (avg_travel_time row))
             G rows)"
  by (induction rows arbitrary: G) (simp_all add: adj_ok_add_edge)

lemma adj_ok_Nil: "adj_ok []"
  by (simp add: adj_ok_def)

lemma slot_graph_ok: "adj_ok (slot_graph route_stats block_positions hour day)"
  unfolding slot_graph_def Let_def
  by (intro foldl_add_edge_ok foldl_add_node_ok adj_ok_Nil)

lemma slot_graph_nodes:
  "has_node (slot_graph route_stats block_positions hour day) m
   \<longleftrightarrow> m \<in> fst ` set block_positions \<or> m \<in> slot_blocks route_stats hour day"
  unfolding slot_graph_def Let_def foldl_add_edge_nodes foldl_add_node slot_blocks_def
  by (simp add: has_node_def)

lemma slot_graph_neighbors:
  "neighbors (slot_graph route_stats block_positions hour day) n
   = slot_neighbors route_stats hour day n"
  unfolding slot_graph_def Let_def foldl_add_edge_neighbors foldl_add_node_neighbors
    slot_neighbors_def
  by (simp add: neighbors_def)

lemma target_rows_eq:
  assumes "adj_ok G"
  shows "target_rows G key nodes =
           Inr (map (\<lambda>node. \<lparr>col_graph = key, col_node = node,
                               col_degree = card (neighbors G node)
                                 + (if node \<in> neighbors G node then 1 else 0)\<rparr>)
                    (filter (has_node G) nodes))"
proof (induction nodes)
  case Nil
  then show ?case by simp
next
  case (Cons node nodes)
  show ?case
  proof (cases "has_node G node")
    case True
    from degree_card[OF assms True] Cons.IH True show ?thesis by simp
  next
    case False
    with Cons.IH show ?thesis by simp
  qed
qed

lemma degree_loop_eq:
  "degree_loop route_stats block_positions sl =
     Inr (concat (map (\<lambda>(hour, day).
       map (\<lambda>node. \<lparr>col_graph = graph_key hour day, col_node = node,
                     col_degree = card (slot_neighbors route_stats hour day node)
                       + (if node \<in> slot_neighbors route_stats hour day node then 1 else 0)\<rparr>)
           (filter (\<lambda>node. node \<in> fst ` set block_positions
                            \<or> node \<in> slot_blocks route_stats hour day) TARGET_NODES)) sl))"
proof (induction sl)
  case Nil
  then show ?case by simp
next
  case (Cons a sl)
  obtain hour day where a: "a = (hour, day)" by (cases a) auto
  have f: "filter (has_node (slot_graph route_stats block_positions hour day)) TARGET_NODES
         = filter (\<lambda>node. node \<in> fst ` set block_positions
                            \<or> node \<in> slot_blocks route_stats hour day) TARGET_NODES"
    by (rule filter_cong) (simp_all add: slot_graph_nodes)
  show ?case
    unfolding a
    by (simp add: target_rows_eq[OF slot_graph_ok] Cons.IH slot_graph_neighbors f)
qed

section \<open>Properties of the degree report\<close>

text \<open>
  C9, as amended.  The report has, slot by slot in loop order, one row for each of the three
  landmarks that is a node of the slot graph (a block of the position mapping or an endpoint
  of a row of the slot), and none for a landmark that is not.  The degree in the row is the
  number of distinct neighbours of the landmark with a recorded edge in the slot, plus one
  when the landmark is its own neighbour: a self-loop counts twice.
\<close>

theorem landmark_degree_rows:
  "compute_node_degrees route_stats block_positions =
     Inr (concat (map (\<lambda>(hour, day).
       map (\<lambda>node. \<lparr>col_graph = graph_key hour day, col_node = node,
                     col_degree = card (slot_neighbors route_stats hour day node)
                       + (if node \<in> slot_neighbors route_stats hour day node then 1 else 0)\<rparr>)
           (filter (\<lambda>node. node \<in> fst ` set block_positions
                            \<or> node \<in> slot_blocks route_stats hour day) TARGET_NODES)) slots))"
  unfolding compute_node_degrees_def by (rule degree_loop_eq)

lemma slot_neighbors_isolated:
  "n \<notin> slot_blocks route_stats hour day \<Longrightarrow> slot_neighbors route_stats hour day n = {}"
  by (auto simp: slot_blocks_def slot_neighbors_def)

text \<open>
  C8.  Every block of the block-position mapping is a node of the graph built for any slot,
  and a block that occurs in no row of the slot is an isolated node, of degree 0.
\<close>

theorem every_block_is_a_node:
  assumes "block_id \<in> fst ` set block_positions"
  shows "has_node (slot_graph route_stats block_positions hour day) block_id
       \<and> (block_id \<notin> slot_blocks route_stats hour day
            \<longrightarrow> degree (slot_graph route_stats block_positions hour day) block_id = Inr 0)"
proof -
  have h: "has_node (slot_graph route_stats block_positions hour day) block_id"
    using assms by (simp add: slot_graph_nodes)
  have "degree (slot_graph route_stats block_positions hour day) block_id = Inr 0"
    if "block_id \<notin> slot_blocks route_stats hour day"
    using degree_card[OF slot_graph_ok h] slot_neighbors_isolated[OF that]
    by (simp add: slot_graph_neighbors)
  with h show ?thesis by blast
qed

lemma ex_es_position: "EMPIRE_STATE \<in> fst ` set two_block_positions"
  by (simp add: two_block_positions_def)

lemma ex_es_isolated: "EMPIRE_STATE \<notin> slot_blocks self_loop_stats 10 ''Monday''"
  by code_simp

theorem every_block_is_a_node_witness:
  "EMPIRE_STATE \<in> fst ` set two_block_positions
   \<and> EMPIRE_STATE \<notin> slot_blocks self_loop_stats 10 ''Monday''
   \<and> has_node (slot_graph self_loop_stats two_block_positions 10 ''Monday'') EMPIRE_STATE
   \<and> degree (slot_graph self_loop_stats two_block_positions 10 ''Monday'') EMPIRE_STATE = Inr 0"
  using every_block_is_a_node[OF ex_es_position, of self_loop_stats 10 "''Monday''"]
    ex_es_position ex_es_isolated by blast

lemma cex_first_row:
  "map_sum id (take 1) (compute_node_degrees self_loop_stats two_block_positions)
     = Inr [\<lparr>col_graph = ''10_Monday'', col_node = TIMES_SQUARE, col_degree = 2\<rparr>]"
  by code_simp

lemma cex_neighbors: "slot_neighbors self_loop_stats 10 ''Monday'' TIMES_SQUARE = {TIMES_SQUARE}"
  by (simp add: slot_neighbors_def self_loop_stats_def)

theorem landmark_degree_counterexample:
  "map_sum id (take 1) (compute_node_degrees self_loop_stats two_block_positions)
     = Inr [\<lparr>col_graph = ''10_Monday'', col_node = TIMES_SQUARE, col_degree = 2\<rparr>]
   \<and> has_node (slot_graph self_loop_stats two_block_positions 10 ''Monday'') TIMES_SQUARE
   \<and> card (slot_neighbors self_loop_stats 10 ''Monday'' TIMES_SQUARE) = 1
   \<and> (2 :: nat) \<noteq> card (slot_neighbors self_loop_stats 10 ''Monday'' TIMES_SQUARE)"
proof -
  have "has_node (slot_graph self_loop_stats two_block_positions 10 ''Monday'') TIMES_SQUARE"
    by (simp add: slot_graph_nodes two_block_positions_def)
  then show ?thesis using cex_first_row by (simp add: cex_neighbors)
qed

theorem landmark_degree_rows_witness:
  "map_sum id (take 3) (compute_node_degrees self_loop_stats two_block_positions)
     = Inr [\<lparr>col_graph = ''10_Monday'', col_node = TIMES_SQUARE, col_degree = 2\<rparr>,
            \<lparr>col_graph = ''10_Monday'', col_node = EMPIRE_STATE, col_degree = 0\<rparr>,
            \<lparr>col_graph = ''10_Saturday'', col_node = TIMES_SQUARE, col_degree = 0\<rparr>]
   \<and> \<not> has_node (slot_graph self_loop_stats two_block_positions 10 ''Monday'') MET"
proof -
  have a: "map_sum id (take 3)
      (Inr (concat (map (\<lambda>(hour, day).
       map (\<lambda>node. \<lparr>col_graph = graph_key hour day, col_node = node,
                     col_degree = card (slot_neighbors self_loop_stats hour day node)
                       + (if node \<in> slot_neighbors self_loop_stats hour day node then 1 else 0)\<rparr>)
           (filter (\<lambda>node. node \<in> fst ` set two_block_positions
                            \<or> node \<in> slot_blocks self_loop_stats hour day) TARGET_NODES)) slots))
         :: py_error + degree_row list)
     = Inr [\<lparr>col_graph = ''10_Monday'', col_node = TIMES_SQUARE, col_degree = 2\<rparr>,
            \<lparr>col_graph = ''10_Monday'', col_node = EMPIRE_STATE, col_degree = 0\<rparr>,
            \<lparr>col_graph = ''10_Saturday'', col_node = TIMES_SQUARE, col_degree = 0\<rparr>]"
    by code_simp
  have b: "\<not> has_node (slot_graph self_loop_stats two_block_positions 10 ''Monday'') MET"
    by code_simp
  show ?thesis
    using a b unfolding landmark_degree_rows[of self_loop_stats two_block_positions, symmetric]
    by blast
qed

section \<open>Properties of the graph construction of analyze_routes.py\<close>

text \<open>
  C1.  The claim expects a mapping of 24 slot graphs.  \<^verbatim>\<open>build_graphs\<close> of
  analyze_routes.py returns \<^verbatim>\<open>None\<close> for every input, and \<^verbatim>\<open>main\<close> fails when it
  unpacks that result.
\<close>

theorem build_graphs_returns_none:
  "build_graphs df mean_coords = None \<and> main df = Inl TypeError"
  by (simp add: build_graphs_def main_def Let_def)

end
